theory Spec2Isabelle
  imports Complex_Main "HOL-Library.Word"
begin

unbundle bit_operations_syntax

section \<open>esdots: elementary streams as one character per entity\<close>

text \<open>
  A shallow embedding of \<^verbatim>\<open>esdots.c\<close>. The functions have the names of the C
  functions; the \<^verbatim>\<open>for (;;)\<close> loop of a driver is a recursive function of its
  own, and \<open>esdots\<close> is \<^verbatim>\<open>main\<close> after the command line. Text written with \<^verbatim>\<open>printf\<close> is a \<^typ>\<open>string\<close>
  that the function returns; the calls of \<^verbatim>\<open>fflush\<close> and of the
  \<^verbatim>\<open>free_...\<close> functions leave no trace in it.
\<close>

subsection \<open>Formatted output\<close>

text \<open>
  \<^verbatim>\<open>%d\<close> of a non-negative value and \<^verbatim>\<open>%x\<close> (lower case, no padding).
\<close>

definition digit :: "nat \<Rightarrow> char" where
  "digit n = ''0123456789abcdef'' ! n"

function dec :: "nat \<Rightarrow> string" where
  "dec n = (if n < 10 then [digit n] else dec (n div 10) @ [digit (n mod 10)])"
  by pat_completeness auto
termination
  by (relation "measure id") auto

function hex :: "nat \<Rightarrow> string" where
  "hex n = (if n < 16 then [digit n] else hex (n div 16) @ [digit (n mod 16)])"
  by pat_completeness auto
termination
  by (relation "measure id") auto

declare dec.simps [simp del] hex.simps [simp del]

text \<open>
  The minute line of both timing annotations:
  \<^verbatim>\<open>printf("\n%d minute%s\n",frames/(25*60),(frames/(25*60)==1?"":"s"))\<close>.
\<close>

definition minute_line :: "nat \<Rightarrow> string" where
  "minute_line frames =
     ''\<newline>'' @ dec (frames div (25 * 60)) @ '' minute'' @
     (if frames div (25 * 60) = 1 then '''' else ''s'') @ ''\<newline>''"

subsection \<open>Stream units\<close>

type_synonym byte = "8 word"

text \<open>
  \<^verbatim>\<open>struct ES_unit\<close>: the start code and the data buffer. The buffer is a
  \<^verbatim>\<open>byte *\<close> that the ES reader allocates; \<^verbatim>\<open>unit.data[5]\<close> reads the byte
  at offset 5 of it, so the buffer is a function from offsets to bytes.
\<close>

record ES_unit =
  start_code :: byte
  data :: "nat \<Rightarrow> byte"

record h262_item =
  unit :: ES_unit
  picture_coding_type :: byte

subsection \<open>MPEG-2 items\<close>

text \<open>
  The \<^verbatim>\<open>switch\<close> of \<^verbatim>\<open>h262_item_dot\<close>: the string to print, or \<open>None\<close>
  where the function returns without printing.
\<close>

definition h262_item_str :: "h262_item \<Rightarrow> string option" where
  "h262_item_str item =
     (let sc = start_code (unit item); pct = picture_coding_type item in
      if sc = 0x00 then
        Some (if pct = 1 then ''i'' else if pct = 2 then ''p''
              else if pct = 3 then ''b'' else if pct = 4 then ''d'' else ''x'')
      else if sc = 0xB0 then Some ''R''
      else if sc = 0xB1 then Some ''R''
      else if sc = 0xB2 then Some ''U''
      else if sc = 0xB3 then Some ''[''
      else if sc = 0xB4 then Some ''X''
      else if sc = 0xB5 then Some ''E''
      else if sc = 0xB6 then Some ''R''
      else if sc = 0xB7 then Some '']''
      else if sc = 0xB8 then Some ''>''
      else if 0x01 \<le> sc \<and> sc \<le> 0xAF then None
      else Some ''?'')"

text \<open>
  The timing annotation at the head of \<^verbatim>\<open>h262_item_dot\<close>. The counter
  \<^verbatim>\<open>frames\<close> is a \<^verbatim>\<open>static int\<close> that starts at 0: it is passed in and
  returned. It is tested before it is incremented.
\<close>

definition h262_minutes :: "nat \<Rightarrow> h262_item \<Rightarrow> string \<times> nat" where
  "h262_minutes frames item =
     (if start_code (unit item) = 0x00 then
        ((if frames mod (25 * 60) = 0 then minute_line frames else ''''), frames + 1)
      else ('''', frames))"

definition h262_item_dot :: "nat \<Rightarrow> h262_item \<Rightarrow> string \<times> nat" where
  "h262_item_dot frames item =
     (let (minutes, frames') = h262_minutes frames item in
      (minutes @ (case h262_item_str item of None \<Rightarrow> '''' | Some str \<Rightarrow> str), frames'))"

subsection \<open>What the readers deliver\<close>

text \<open>
  The readers (\<^verbatim>\<open>find_next_h262_item\<close>, \<^verbatim>\<open>get_next_avs_frame\<close>,
  \<^verbatim>\<open>get_next_h264_frame\<close>, \<^verbatim>\<open>find_next_ES_unit\<close>) belong to other files.
  A stream is the list of what successive calls deliver: a unit, or an error code
  (non-zero and not \<^verbatim>\<open>EOF\<close>). The call after the last element delivers
  \<^verbatim>\<open>EOF\<close>. A driver returns what it printed on standard output and on standard
  error, its return value, and the part of the stream it has not asked for.
\<close>

datatype 'u fetched = Got 'u | Failed int

record 'u report =
  printed :: string
  complained :: string
  status :: int
  unread :: "'u fetched list"

definition say :: "string \<Rightarrow> 'u report \<Rightarrow> 'u report" where
  "say txt r = r\<lparr>printed := txt @ printed r\<rparr>"

definition plural :: "nat \<Rightarrow> string" where
  "plural n = (if n = 1 then '''' else ''s'')"

definition print_d :: "int \<Rightarrow> string" where
  "print_d i = (if i < 0 then ''-'' @ dec (nat (- i)) else dec (nat i))"

subsection \<open>The MPEG-2 driver\<close>

definition h262_legend :: string where
  "h262_legend =
     ''\<newline>'' @
     ''Each character represents a single H.262 item\<newline>'' @
     ''Pictures are represented according to their picture coding\<newline>'' @
     ''type, and the slices within a picture are not shown.\<newline>'' @
     ''    i means an I picture\<newline>'' @
     ''    p means a  P picture\<newline>'' @
     ''    b means a  B picture\<newline>'' @
     ''    d means a  D picture (these should not occur in MPEG-2)\<newline>'' @
     ''    x means some other picture (such should not occur)\<newline>'' @
     ''Other items are represented as follows:\<newline>'' @
     ''    [ means a  Sequence header\<newline>'' @
     ''    > means a  Group Start header\<newline>'' @
     ''    E means an Extension start header\<newline>'' @
     ''    U means a  User data header\<newline>'' @
     ''    X means a  Sequence Error\<newline>'' @
     ''    ] means a  Sequence End\<newline>'' @
     ''    R means a  Reserved item\<newline>'' @
     ''    ? means something else. This may indicate that the stream\<newline>'' @
     ''      is not an ES representing H.262 (it might, for instance\<newline>'' @
     ''      be PES)\<newline>'' @
     ''\<newline>''"

definition h262_found :: "nat \<Rightarrow> string" where
  "h262_found count =
     ''\<newline>Found '' @ dec count @ '' MPEG2 item'' @ plural count @ ''\<newline>''"

text \<open>The \<^verbatim>\<open>for (;;)\<close> loop of \<^verbatim>\<open>report_h262_file_as_dots\<close>.\<close>

fun h262_loop :: "int \<Rightarrow> nat \<Rightarrow> nat \<Rightarrow> h262_item fetched list \<Rightarrow> h262_item report" where
  "h262_loop maxi count frames [] =
     \<lparr>printed = h262_found count, complained = '''', status = 0, unread = []\<rparr>"
| "h262_loop maxi count frames (Failed err # es) =
     \<lparr>printed = '''', complained = ''### Error copying NAL units\<newline>'', status = err,
      unread = es\<rparr>"
| "h262_loop maxi count frames (Got item # es) =
     (let count' = count + 1; (dot, frames') = h262_item_dot frames item in
      if maxi > 0 \<and> int count' \<ge> maxi then
        \<lparr>printed = dot @ h262_found count', complained = '''', status = 0, unread = es\<rparr>
      else say dot (h262_loop maxi count' frames' es))"

definition report_h262_file_as_dots ::
  "h262_item fetched list \<Rightarrow> int \<Rightarrow> bool \<Rightarrow> h262_item report" where
  "report_h262_file_as_dots es maxi verbose =
     say (if verbose then h262_legend else '''') (h262_loop maxi 0 0 es)"

subsection \<open>Functions of the other files\<close>

text \<open>
  The functions that \<^verbatim>\<open>esdots.c\<close> calls and whose results decide what is
  printed are parameters of the model: the three slice tests of
  \<^verbatim>\<open>accessunit_fns.h\<close> (on an access unit of type \<open>'au\<close>),
  \<^verbatim>\<open>avs_frame_rate\<close> and \<^verbatim>\<open>avs_picture_coding_type\<close> of \<^verbatim>\<open>avs_fns.h\<close>.
  A \<^verbatim>\<open>double\<close> is the real number it stands for.
\<close>

record 'au library =
  all_slices_I :: "'au \<Rightarrow> bool"
  all_slices_P :: "'au \<Rightarrow> bool"
  all_slices_B :: "'au \<Rightarrow> bool"
  avs_frame_rate :: "byte \<Rightarrow> real"
  avs_picture_coding_type :: "ES_unit \<Rightarrow> byte"

subsection \<open>AVS frames\<close>

text \<open>
  Modelled from the spec: the header \<^verbatim>\<open>avs_defns.h\<close> with the three macros is
  not among the sources. The spec names three distinct coding types I, P and B of an
  AVS frame; they are three distinct byte values.
\<close>

definition AVS_I_PICTURE_CODING :: byte where
  "AVS_I_PICTURE_CODING = 0"

definition AVS_P_PICTURE_CODING :: byte where
  "AVS_P_PICTURE_CODING = 1"

definition AVS_B_PICTURE_CODING :: byte where
  "AVS_B_PICTURE_CODING = 2"

text \<open>
  The fields of \<^verbatim>\<open>struct avs_frame\<close> that are read. \<open>frame_start_code\<close> and
  \<open>frame_picture_coding_type\<close> are its \<^verbatim>\<open>start_code\<close> and
  \<^verbatim>\<open>picture_coding_type\<close>.
\<close>

record avs_frame =
  is_frame :: bool
  frame_start_code :: byte
  frame_picture_coding_type :: byte
  frame_rate_code :: byte

text \<open>The local variables of \<^verbatim>\<open>report_avs_file_as_dots\<close>.\<close>

record avs_vars =
  count :: nat
  frames :: nat
  frame_rate :: real

text \<open>
  \<^verbatim>\<open>(int)(frame_rate*60)\<close>: the conversion truncates towards zero.
\<close>

definition frames_per_minute :: "real \<Rightarrow> int" where
  "frames_per_minute rate = (if 0 \<le> rate * 60 then \<lfloor>rate * 60\<rfloor> else \<lceil>rate * 60\<rceil>)"

text \<open>
  The classification of one AVS frame with its timing annotation (the
  \<^verbatim>\<open>if\<close> cascade of the loop body). The remainder \<^verbatim>\<open>frames % n\<close> is only
  compared with 0, which C's truncating remainder and \<open>mod\<close> agree on. Where
  \<^verbatim>\<open>(int)(frame_rate*60)\<close> is 0 the remainder is a division by zero and the
  program does not go on: the character has been printed, and there are no
  variables to go on with (\<open>None\<close>).
\<close>

definition avs_frame_dot ::
  "'au library \<Rightarrow> avs_vars \<Rightarrow> avs_frame \<Rightarrow> string \<times> avs_vars option" where
  "avs_frame_dot lib vars avs_frame =
     (if is_frame avs_frame then
        (let frames' = frames vars + 1;
             dot = (if frame_picture_coding_type avs_frame = AVS_I_PICTURE_CODING then ''i''
                    else if frame_picture_coding_type avs_frame = AVS_P_PICTURE_CODING then ''p''
                    else if frame_picture_coding_type avs_frame = AVS_B_PICTURE_CODING then ''b''
                    else ''!'')
         in if frames_per_minute (frame_rate vars) = 0 then (dot, None)
            else (dot @ (if int frames' mod frames_per_minute (frame_rate vars) = 0
                         then minute_line frames' else ''''),
                  Some (vars\<lparr>frames := frames'\<rparr>)))
      else if frame_start_code avs_frame < 0xB0 then (''_'', Some vars)
      else if frame_start_code avs_frame = 0xB0 then
        (''['', Some (vars\<lparr>frame_rate := avs_frame_rate lib (frame_rate_code avs_frame)\<rparr>))
      else if frame_start_code avs_frame = 0xB1 then ('']'', Some vars)
      else if frame_start_code avs_frame = 0xB2 then (''U'', Some vars)
      else if frame_start_code avs_frame = 0xB5 then (''E'', Some vars)
      else if frame_start_code avs_frame = 0xB7 then (''V'', Some vars)
      else (''<'' @ hex (unat (frame_start_code avs_frame)) @ ''>'', Some vars))"

definition avs_legend :: string where
  "avs_legend =
     ''\<newline>'' @
     ''Each character represents a single AVS item\<newline>'' @
     ''Frames are represented according to their picture coding\<newline>'' @
     ''type, and the slices within a frame are not shown.\<newline>'' @
     ''    i means an I frame\<newline>'' @
     ''    p means a  P frame\<newline>'' @
     ''    b means a  B frame\<newline>'' @
     ''    _ means a (stray) slice, normally only at the start of a stream\<newline>'' @
     ''    ! means something else (this should not be possible)\<newline>'' @
     ''Other items are represented as follows:\<newline>'' @
     ''    [ means a  Sequence header\<newline>'' @
     ''    E means an Extension start header\<newline>'' @
     ''    U means a  User data header\<newline>'' @
     ''    ] means a  Sequence End\<newline>'' @
     ''    V means a  Video edit item\<newline>'' @
     ''    ? means something else. This may indicate that the stream\<newline>'' @
     ''      is not an ES representing AVS (it might, for instance\<newline>'' @
     ''      be PES)\<newline>'' @
     ''\<newline>''"

definition avs_found :: "avs_vars \<Rightarrow> string" where
  "avs_found vars =
     ''\<newline>Found '' @ dec (frames vars) @ '' frame'' @ plural (frames vars) @ '' in '' @
     dec (count vars) @ '' AVS item'' @ plural (count vars) @ ''\<newline>''"

definition avs_stopping :: "avs_vars \<Rightarrow> string" where
  "avs_stopping vars =
     ''\<newline>Stopping because '' @ dec (frames vars) @ '' frames have been read\<newline>''"

text \<open>
  The loop of \<^verbatim>\<open>report_avs_file_as_dots\<close>; \<open>None\<close> is the division by zero
  of the timing annotation.
\<close>

fun avs_loop ::
  "'au library \<Rightarrow> int \<Rightarrow> avs_vars \<Rightarrow> avs_frame fetched list \<Rightarrow> avs_frame report option" where
  "avs_loop lib maxi vars [] =
     Some \<lparr>printed = avs_found vars, complained = '''', status = 0, unread = []\<rparr>"
| "avs_loop lib maxi vars (Failed err # es) =
     Some \<lparr>printed = '''', complained = '''', status = 1, unread = es\<rparr>"
| "avs_loop lib maxi vars (Got avs_frame # es) =
     (case avs_frame_dot lib vars avs_frame of
        (dot, None) \<Rightarrow> None
      | (dot, Some vars1) \<Rightarrow>
          (let vars' = vars1\<lparr>count := count vars1 + 1\<rparr> in
           if maxi > 0 \<and> int (frames vars') \<ge> maxi then
             Some \<lparr>printed = dot @ avs_stopping vars' @ avs_found vars', complained = '''',
                   status = 0, unread = es\<rparr>
           else map_option (say dot) (avs_loop lib maxi vars' es)))"

text \<open>
  \<open>built\<close> is the result of \<^verbatim>\<open>build_avs_context\<close>: 0, or the error code that
  \<^verbatim>\<open>report_avs_file_as_dots\<close> returns at once.
\<close>

definition report_avs_file_as_dots ::
  "'au library \<Rightarrow> int \<Rightarrow> avs_frame fetched list \<Rightarrow> int \<Rightarrow> bool \<Rightarrow> avs_frame report option" where
  "report_avs_file_as_dots lib built es maxi verbose =
     (if built \<noteq> 0 then
        Some \<lparr>printed = (if verbose then avs_legend else ''''), complained = '''',
              status = built, unread = es\<rparr>
      else map_option (say (if verbose then avs_legend else ''''))
             (avs_loop lib maxi \<lparr>count = 0, frames = 0, frame_rate = 25\<rparr> es))"

subsection \<open>H.264 access units\<close>

text \<open>
  Modelled from the spec: the header with \<^verbatim>\<open>enum NAL_UNIT_TYPE\<close> is not among
  the sources. The spec's data model has a NAL unit kind that is IDR, non-IDR or
  something else; \<open>NAL_OTHER\<close> carries the number of any other kind.
\<close>

datatype NAL_UNIT_TYPE = NAL_NON_IDR | NAL_IDR | NAL_OTHER nat

record nal_unit =
  nal_ref_idc :: int
  nal_unit_type :: NAL_UNIT_TYPE

text \<open>
  \<^verbatim>\<open>primary_start\<close> is a pointer: \<open>None\<close> is \<^verbatim>\<open>NULL\<close>. The other fields of
  an access unit are read by the slice tests only; they are in the extension of
  the record.
\<close>

record access_unit =
  primary_start :: "nal_unit option"

text \<open>
  The fields of the access unit context that the driver reads and writes;
  \<open>nac_count\<close> is \<^verbatim>\<open>context->nac->count\<close>.
\<close>

record access_unit_context =
  end_of_stream :: bool
  no_more_data :: bool
  nac_count :: int

text \<open>The \<^verbatim>\<open>if\<close> cascade that prints the character of one access unit.\<close>

definition access_unit_dot ::
  "'a access_unit_scheme library \<Rightarrow> 'a access_unit_scheme \<Rightarrow> string" where
  "access_unit_dot lib access_unit =
     (case primary_start access_unit of
        None \<Rightarrow> ''_''
      | Some nal \<Rightarrow>
          if nal_ref_idc nal = 0 then
            (if all_slices_I lib access_unit then ''i''
             else if all_slices_P lib access_unit then ''p''
             else if all_slices_B lib access_unit then ''b''
             else ''x'')
          else if nal_unit_type nal = NAL_IDR then
            (if all_slices_I lib access_unit then ''D'' else ''d'')
          else if nal_unit_type nal = NAL_NON_IDR then
            (if all_slices_I lib access_unit then ''I''
             else if all_slices_P lib access_unit then ''P''
             else if all_slices_B lib access_unit then ''B''
             else ''X'')
          else ''?'')"

definition h264_legend :: string where
  "h264_legend =
     ''\<newline>'' @
     ''Each character represents a single access unit\<newline>'' @
     ''\<newline>'' @
     ''    D       means an IDR.\<newline>'' @
     ''    d       means an IDR that is not all I slices.\<newline>'' @
     ''    I, P, B means all slices of the primary picture are I, P or B,\<newline>'' @
     ''            and this is a reference picture.\<newline>'' @
     ''    i, p, b means all slices of the primary picture are I, P or B,\<newline>'' @
     ''            and this is NOT a reference picture.\<newline>'' @
     ''    X or x  means that not all slices are of the same type.\<newline>'' @
     ''    ?       means some other type of access unit.\<newline>'' @
     ''    _       means that the access unit doesn'' @ [CHR 0x27] @
     ''t contain a primary picture.\<newline>'' @
     ''\<newline>'' @
     ''If -hasheos was specified:\<newline>'' @
     ''    # means an EOS (end-of-stream) NAL unit.\<newline>'' @
     ''\<newline>''"

definition h264_found :: "access_unit_context \<Rightarrow> nat \<Rightarrow> string" where
  "h264_found context access_unit_count =
     ''\<newline>Found '' @ print_d (nac_count context) @ '' NAL unit'' @
     (if nac_count context = 1 then '''' else ''s'') @ '' in '' @
     dec access_unit_count @ '' access unit'' @ plural access_unit_count @ ''\<newline>''"

definition h264_stopping :: "access_unit_context \<Rightarrow> string" where
  "h264_stopping context =
     ''\<newline>Stopping because '' @ print_d (nac_count context) @
     '' NAL units have been read\<newline>''"

definition eos_stopping :: string where
  "eos_stopping = ''\<newline>Stopping because found end-of-stream NAL unit\<newline>''"

text \<open>
  The end of \<^verbatim>\<open>dots_by_access_unit\<close> after a \<^verbatim>\<open>break\<close>: the summary, and
  the return of 0.
\<close>

definition h264_finish ::
  "access_unit_context \<Rightarrow> nat \<Rightarrow> 'u fetched list \<Rightarrow> 'u report" where
  "h264_finish context access_unit_count es =
     \<lparr>printed = h264_found context access_unit_count, complained = '''', status = 0,
      unread = es\<rparr>"

text \<open>
  The loop of \<^verbatim>\<open>dots_by_access_unit\<close>. \<^verbatim>\<open>get_next_h264_frame\<close> works on
  the context that the driver holds: what it delivers is the access unit together
  with what the call does to the context.
\<close>

type_synonym 'a h264_frame =
  "'a access_unit_scheme \<times> (access_unit_context \<Rightarrow> access_unit_context)"

fun access_unit_loop ::
  "'a access_unit_scheme library \<Rightarrow> int \<Rightarrow> bool \<Rightarrow> access_unit_context \<Rightarrow> nat \<Rightarrow>
   'a h264_frame fetched list \<Rightarrow> 'a h264_frame report" where
  "access_unit_loop lib maxi hash_eos context access_unit_count [] =
     h264_finish context access_unit_count []"
| "access_unit_loop lib maxi hash_eos context access_unit_count (Failed err # es) =
     \<lparr>printed = '''', complained = '''', status = 1, unread = es\<rparr>"
| "access_unit_loop lib maxi hash_eos context access_unit_count (Got (access_unit, parse) # es) =
     (let context1 = parse context;
          dot = access_unit_dot lib access_unit;
          access_unit_count' = access_unit_count + 1
      in
      if end_of_stream context1 \<and> \<not> hash_eos then
        say (dot @ eos_stopping) (h264_finish context1 access_unit_count' es)
      else
        (let (hash, context2) =
               (if end_of_stream context1
                then (''#'', context1\<lparr>end_of_stream := False, no_more_data := False\<rparr>)
                else ('''', context1))
         in
         if maxi > 0 \<and> nac_count context2 \<ge> maxi then
           say (dot @ hash @ h264_stopping context2) (h264_finish context2 access_unit_count' es)
         else
           say (dot @ hash) (access_unit_loop lib maxi hash_eos context2 access_unit_count' es)))"

text \<open>
  \<open>built\<close> is what \<^verbatim>\<open>build_access_unit_context\<close> delivers: an error code, which
  is returned at once, or the new context.
\<close>

definition dots_by_access_unit ::
  "'a access_unit_scheme library \<Rightarrow> int + access_unit_context \<Rightarrow> 'a h264_frame fetched list \<Rightarrow>
   int \<Rightarrow> bool \<Rightarrow> bool \<Rightarrow> 'a h264_frame report" where
  "dots_by_access_unit lib built es maxi verbose hash_eos =
     (case built of
        Inl err \<Rightarrow>
          \<lparr>printed = (if verbose then h264_legend else ''''), complained = '''',
           status = err, unread = es\<rparr>
      | Inr context \<Rightarrow>
          say (if verbose then h264_legend else '''')
            (access_unit_loop lib maxi hash_eos context 0 es))"

subsection \<open>ES units\<close>

text \<open>
  Modelled from the spec: the header with the macros \<^verbatim>\<open>VIDEO_H262\<close>,
  \<^verbatim>\<open>VIDEO_H264\<close> and \<^verbatim>\<open>VIDEO_AVS\<close> is not among the sources. The spec has three
  stream families; \<open>VIDEO_UNKNOWN\<close> is any other value of the \<^verbatim>\<open>int\<close>.
\<close>

datatype video = VIDEO_H262 | VIDEO_H264 | VIDEO_AVS | VIDEO_UNKNOWN int

text \<open>
  The \<^verbatim>\<open>switch (what_data)\<close> in the loop of \<^verbatim>\<open>report_file_as_ES_dots\<close>:
  what is printed for one ES unit.
\<close>

definition ES_unit_dot :: "'au library \<Rightarrow> video \<Rightarrow> ES_unit \<Rightarrow> string" where
  "ES_unit_dot lib what_data u =
     (case what_data of
        VIDEO_H262 \<Rightarrow>
          (if start_code u = 0x00 then
             (let picture_coding_type = drop_bit 3 (data u 5 AND 0x38) in
              if picture_coding_type = 1 then ''i''
              else if picture_coding_type = 2 then ''p''
              else if picture_coding_type = 3 then ''b''
              else if picture_coding_type = 4 then ''d''
              else ''!'')
           else if start_code u = 0xB0 then ''R''
           else if start_code u = 0xB1 then ''R''
           else if start_code u = 0xB2 then ''U''
           else if start_code u = 0xB3 then ''[''
           else if start_code u = 0xB4 then ''X''
           else if start_code u = 0xB5 then ''E''
           else if start_code u = 0xB6 then ''R''
           else if start_code u = 0xB7 then '']''
           else if start_code u = 0xB8 then ''>''
           else if 0x01 \<le> start_code u \<and> start_code u \<le> 0xAF then ''_''
           else ''?'')
      | VIDEO_H264 \<Rightarrow> ''''
      | VIDEO_AVS \<Rightarrow>
          (if start_code u = 0xB3 then ''i''
           else if start_code u = 0xB6 then
             (if avs_picture_coding_type lib u = AVS_P_PICTURE_CODING then ''p''
              else if avs_picture_coding_type lib u = AVS_B_PICTURE_CODING then ''b''
              else ''!'')
           else if start_code u = 0xB0 then ''[''
           else if start_code u = 0xB1 then '']''
           else if start_code u = 0xB2 then ''U''
           else if start_code u = 0xB5 then ''E''
           else if start_code u = 0xB7 then ''V''
           else if start_code u < 0xB0 then ''_''
           else ''?'')
      | VIDEO_UNKNOWN v \<Rightarrow> '''')"

definition ES_legend_head :: string where
  "ES_legend_head = ''\<newline>'' @ ''Each character represents a single ES unit\<newline>''"

definition ES_legend_h262 :: string where
  "ES_legend_h262 =
     ''Pictures are represented according to their picture coding\<newline>'' @
     ''type, and the slices within a picture are not shown.\<newline>'' @
     ''    i means an I picture\<newline>'' @
     ''    p means a  P picture\<newline>'' @
     ''    b means a  B picture\<newline>'' @
     ''    d means a  D picture (these should not occur in MPEG-2)\<newline>'' @
     ''    ! means some other picture (such should not occur)\<newline>'' @
     ''Other items are represented as follows:\<newline>'' @
     ''    [ means a  Sequence header\<newline>'' @
     ''    > means a  Group Start header\<newline>'' @
     ''    E means an Extension start header\<newline>'' @
     ''    U means a  User data header\<newline>'' @
     ''    X means a  Sequence Error\<newline>'' @
     ''    ] means a  Sequence End\<newline>'' @
     ''    R means a  Reserved item\<newline>''"

definition ES_legend_avs :: string where
  "ES_legend_avs =
     ''Frames are represented according to their picture coding\<newline>'' @
     ''type, and the slices within a frame are not shown.\<newline>'' @
     ''    i means an I frame\<newline>'' @
     ''    p means a  P frame\<newline>'' @
     ''    b means a  B frame\<newline>'' @
     ''    _ means a slice\<newline>'' @
     ''    ! means something else (this should not be possible)\<newline>'' @
     ''Other items are represented as follows:\<newline>'' @
     ''    [ means a  Sequence header\<newline>'' @
     ''    E means an Extension start header\<newline>'' @
     ''    U means a  User data header\<newline>'' @
     ''    ] means a  Sequence End\<newline>'' @
     ''    V means a  Video edit item\<newline>''"

definition ES_legend_tail :: string where
  "ES_legend_tail =
     ''    ? means something else. This may indicate that the stream\<newline>'' @
     ''      is not an ES representing AVS (it might, for instance\<newline>'' @
     ''      be PES)\<newline>'' @
     ''\<newline>''"

definition ES_not_supported :: string where
  "ES_not_supported = ''### esdots: -es is not yet supported for H.264\<newline>''"

definition ES_unexpected :: string where
  "ES_unexpected = ''### esdots: Unexpected type of data\<newline>''"

definition ES_stopping :: "nat \<Rightarrow> string" where
  "ES_stopping n = ''\<newline>Stopping because '' @ dec n @ '' ES units have been read\<newline>''"

definition ES_found :: "nat \<Rightarrow> string" where
  "ES_found n = ''\<newline>Found '' @ dec n @ '' ES units'' @ plural n @ ''\<newline>''"

fun ES_loop ::
  "'au library \<Rightarrow> video \<Rightarrow> int \<Rightarrow> nat \<Rightarrow> ES_unit fetched list \<Rightarrow> ES_unit report" where
  "ES_loop lib what_data maxi n [] =
     \<lparr>printed = ES_found n, complained = '''', status = 0, unread = []\<rparr>"
| "ES_loop lib what_data maxi n (Failed err # es) =
     \<lparr>printed = '''', complained = '''', status = 1, unread = es\<rparr>"
| "ES_loop lib what_data maxi n (Got u # es) =
     (let dot = ES_unit_dot lib what_data u; n' = n + 1 in
      if maxi > 0 \<and> int n' \<ge> maxi then
        \<lparr>printed = dot @ ES_stopping n' @ ES_found n', complained = '''', status = 0,
         unread = es\<rparr>
      else say dot (ES_loop lib what_data maxi n' es))"

text \<open>
  \<^verbatim>\<open>report_file_as_ES_dots\<close>. The \<^verbatim>\<open>switch\<close> on the kind of data that
  refuses H.264 is inside \<^verbatim>\<open>if (verbose)\<close>; its case for AVS has no
  \<^verbatim>\<open>break\<close> and runs on into the \<^verbatim>\<open>default\<close>.
\<close>

definition report_file_as_ES_dots ::
  "'au library \<Rightarrow> ES_unit fetched list \<Rightarrow> video \<Rightarrow> int \<Rightarrow> bool \<Rightarrow> ES_unit report" where
  "report_file_as_ES_dots lib es what_data maxi verbose =
     (if verbose then
        (case what_data of
           VIDEO_H262 \<Rightarrow>
             say (ES_legend_head @ ES_legend_h262 @ ES_legend_tail)
               (ES_loop lib what_data maxi 0 es)
         | VIDEO_H264 \<Rightarrow>
             \<lparr>printed = ES_legend_head @ ES_not_supported, complained = '''', status = 1,
              unread = es\<rparr>
         | VIDEO_AVS \<Rightarrow>
             \<lparr>printed = ES_legend_head @ ES_legend_avs @ ES_unexpected, complained = '''',
              status = 1, unread = es\<rparr>
         | VIDEO_UNKNOWN v \<Rightarrow>
             \<lparr>printed = ES_legend_head @ ES_unexpected, complained = '''', status = 1,
              unread = es\<rparr>)
      else ES_loop lib what_data maxi 0 es)"

subsection \<open>The end of main\<close>

text \<open>
  The input as each of the four readers delivers it, with the results of the two
  functions that build a context and of \<^verbatim>\<open>close_input_as_ES\<close>.
\<close>

record 'a ES =
  ES_units :: "ES_unit fetched list"
  h262_items :: "h262_item fetched list"
  avs_context :: int
  avs_frames :: "avs_frame fetched list"
  h264_context :: "int + access_unit_context"
  h264_frames :: "'a h264_frame fetched list"
  closing :: int

text \<open>
  \<^verbatim>\<open>main\<close> from the choice of the driver on, with the options as the
  command line has set them and \<open>is_data\<close> as \<^verbatim>\<open>open_input_as_ES\<close> has found
  it: the text on standard output, the text on standard error and the exit code.
  \<open>None\<close> is the division by zero of the AVS driver.
\<close>

definition outcome :: "'u report \<Rightarrow> string \<times> string \<times> int" where
  "outcome r = (printed r, complained r, status r)"

definition esdots ::
  "'a access_unit_scheme library \<Rightarrow> 'a ES \<Rightarrow> bool \<Rightarrow> video \<Rightarrow> int \<Rightarrow> bool \<Rightarrow> bool \<Rightarrow>
   (string \<times> string \<times> int) option" where
  "esdots lib es want_ES is_data maxi verbose hash_eos =
     (let run =
        (if want_ES then
           Some (outcome (report_file_as_ES_dots lib (ES_units es) is_data maxi verbose))
         else if is_data = VIDEO_H262 then
           Some (outcome (report_h262_file_as_dots (h262_items es) maxi verbose))
         else if is_data = VIDEO_H264 then
           Some (outcome (dots_by_access_unit lib (h264_context es) (h264_frames es)
                            maxi verbose hash_eos))
         else if is_data = VIDEO_AVS then
           map_option outcome
             (report_avs_file_as_dots lib (avs_context es) (avs_frames es) maxi verbose)
         else Some ('''', ''### esdots: Unexpected type of video data\<newline>'', 0))
      in
      case run of
        None \<Rightarrow> None
      | Some (out, complaints, err) \<Rightarrow>
          if err \<noteq> 0 then
            Some (out, complaints @ ''### esdots: Error producing '' @ [CHR 0x27] @ ''dots'' @
                       [CHR 0x27] @ ''\<newline>'', 1)
          else if closing es \<noteq> 0 then
            Some (out, complaints @ ''### esdots: Error closing input file\<newline>'', 1)
          else Some (out, complaints, 0))"

subsection \<open>Runs of the MPEG-2 loop\<close>



subsection \<open>Runs of the AVS loop\<close>

text \<open>
  What the loop body prints for a list of AVS frames, with the variables after the
  last of them (\<open>None\<close> where the timing annotation divides by zero); and the
  sequence headers among the frames.
\<close>

fun avs_dots :: "'au library \<Rightarrow> avs_vars \<Rightarrow> avs_frame list \<Rightarrow> (string \<times> avs_vars) option" where
  "avs_dots lib vars [] = Some ('''', vars)"
| "avs_dots lib vars (f # fs) =
     (case avs_frame_dot lib vars f of
        (dot, None) \<Rightarrow> None
      | (dot, Some vars1) \<Rightarrow>
          map_option (\<lambda>(dots, vars'). (dot @ dots, vars'))
            (avs_dots lib (vars1\<lparr>count := count vars1 + 1\<rparr>) fs))"


subsection \<open>Example inputs\<close>

text \<open>
  An AVS frame, two H.264 access units without a primary picture (after the first
  the reader has seen an end-of-stream NAL unit; the argument is the number of NAL
  units read so far), a fresh context, and an input of two ES units.
\<close>

definition avs_example :: "bool \<Rightarrow> byte \<Rightarrow> byte \<Rightarrow> avs_frame" where
  "avs_example fr sc pct =
     \<lparr>is_frame = fr, frame_start_code = sc, frame_picture_coding_type = pct,
      frame_rate_code = 6\<rparr>"

definition eos_example :: "int \<Rightarrow> unit h264_frame fetched" where
  "eos_example k =
     Got (\<lparr>primary_start = None\<rparr>, \<lambda>context. context\<lparr>end_of_stream := True, nac_count := k\<rparr>)"

definition more_example :: "int \<Rightarrow> unit h264_frame fetched" where
  "more_example k = Got (\<lparr>primary_start = None\<rparr>, \<lambda>context. context\<lparr>nac_count := k\<rparr>)"

definition context_example :: access_unit_context where
  "context_example = \<lparr>end_of_stream = False, no_more_data = False, nac_count = 0\<rparr>"

definition ES_unit_example :: "byte \<Rightarrow> byte \<Rightarrow> ES_unit" where
  "ES_unit_example sc b = \<lparr>start_code = sc, data = (\<lambda>i. if i = 5 then b else 0)\<rparr>"

definition ES_example :: "unit ES" where
  "ES_example =
     \<lparr>ES_units = [Got (ES_unit_example 0x09 0), Got (ES_unit_example 0x65 0)],
      h262_items = [], avs_context = 0, avs_frames = [],
      h264_context = Inr context_example, h264_frames = [], closing = 0\<rparr>"

text \<open>
  A library in which every access unit has P slices only, every frame-rate code
  stands for 50 frames per second and every AVS picture is a P picture.
\<close>

definition example_lib :: "access_unit library" where
  "example_lib =
     \<lparr>all_slices_I = (\<lambda>au. False), all_slices_P = (\<lambda>au. True), all_slices_B = (\<lambda>au. False),
      avs_frame_rate = (\<lambda>code. 50), avs_picture_coding_type = (\<lambda>u. 1)\<rparr>"

definition h262_example :: "byte \<Rightarrow> byte \<Rightarrow> h262_item" where
  "h262_example sc pct =
     \<lparr>unit = \<lparr>start_code = sc, data = (\<lambda>i. 0)\<rparr>, picture_coding_type = pct\<rparr>"

section \<open>Properties\<close>

subsection \<open>Printed numbers\<close>

lemma dec_digit: "n < 10 \<Longrightarrow> dec n = [digit n]"
  by (simp add: dec.simps)

lemma minute_line_0: "minute_line 0 = ''\<newline>0 minutes\<newline>''"
  by (simp add: minute_line_def dec_digit digit_def)

subsection \<open>The rule tables\<close>

text \<open>
  C1: the character of an H.264 access unit follows the decision tree, in this
  order. Without a primary NAL unit it is \<open>_\<close>. With a primary NAL unit whose
  \<open>nal_ref_idc\<close> is 0 it is \<open>i\<close>, \<open>p\<close> or \<open>b\<close> where all slices are I, P or B (the
  tests are made in this order) and \<open>x\<close> where none of the tests holds. Otherwise,
  for an IDR it is \<open>D\<close> where all slices are I and \<open>d\<close> where not; for a non-IDR
  it is \<open>I\<close>, \<open>P\<close>, \<open>B\<close> or \<open>X\<close>; for any other kind it is \<open>?\<close>. The test for a
  non-reference unit comes before the test for an IDR: an IDR with \<open>nal_ref_idc\<close>
  0 gets neither \<open>D\<close> nor \<open>d\<close>.
\<close>

theorem access_unit_dot_decision_tree:
  "(primary_start au = None \<longrightarrow> access_unit_dot lib au = ''_'') \<and>
   (\<forall>nal. primary_start au = Some nal \<and> nal_ref_idc nal = 0 \<longrightarrow>
      access_unit_dot lib au =
        (if all_slices_I lib au then ''i'' else if all_slices_P lib au then ''p''
         else if all_slices_B lib au then ''b'' else ''x'')) \<and>
   (\<forall>nal. primary_start au = Some nal \<and> nal_ref_idc nal \<noteq> 0 \<and> nal_unit_type nal = NAL_IDR \<longrightarrow>
      access_unit_dot lib au = (if all_slices_I lib au then ''D'' else ''d'')) \<and>
   (\<forall>nal. primary_start au = Some nal \<and> nal_ref_idc nal \<noteq> 0 \<and>
          nal_unit_type nal = NAL_NON_IDR \<longrightarrow>
      access_unit_dot lib au =
        (if all_slices_I lib au then ''I'' else if all_slices_P lib au then ''P''
         else if all_slices_B lib au then ''B'' else ''X'')) \<and>
   (\<forall>nal k. primary_start au = Some nal \<and> nal_ref_idc nal \<noteq> 0 \<and>
          nal_unit_type nal = NAL_OTHER k \<longrightarrow>
      access_unit_dot lib au = ''?'') \<and>
   (\<forall>nal. primary_start au = Some nal \<and> nal_ref_idc nal = 0 \<and> nal_unit_type nal = NAL_IDR \<longrightarrow>
      access_unit_dot lib au \<noteq> ''D'' \<and> access_unit_dot lib au \<noteq> ''d'')"
  by (simp add: access_unit_dot_def)

theorem access_unit_dot_decision_tree_witness:
  "access_unit_dot example_lib \<lparr>primary_start = None\<rparr> = ''_'' \<and>
   access_unit_dot example_lib
     \<lparr>primary_start = Some \<lparr>nal_ref_idc = 0, nal_unit_type = NAL_IDR\<rparr>\<rparr> = ''p'' \<and>
   access_unit_dot example_lib
     \<lparr>primary_start = Some \<lparr>nal_ref_idc = 3, nal_unit_type = NAL_IDR\<rparr>\<rparr> = ''d'' \<and>
   access_unit_dot example_lib
     \<lparr>primary_start = Some \<lparr>nal_ref_idc = 2, nal_unit_type = NAL_NON_IDR\<rparr>\<rparr> = ''P'' \<and>
   access_unit_dot example_lib
     \<lparr>primary_start = Some \<lparr>nal_ref_idc = 1, nal_unit_type = NAL_OTHER 6\<rparr>\<rparr> = ''?''"
  using access_unit_dot_decision_tree [of "\<lparr>primary_start = None\<rparr>" example_lib]
    access_unit_dot_decision_tree
      [of "\<lparr>primary_start = Some \<lparr>nal_ref_idc = 0, nal_unit_type = NAL_IDR\<rparr>\<rparr>" example_lib]
    access_unit_dot_decision_tree
      [of "\<lparr>primary_start = Some \<lparr>nal_ref_idc = 3, nal_unit_type = NAL_IDR\<rparr>\<rparr>" example_lib]
    access_unit_dot_decision_tree
      [of "\<lparr>primary_start = Some \<lparr>nal_ref_idc = 2, nal_unit_type = NAL_NON_IDR\<rparr>\<rparr>" example_lib]
    access_unit_dot_decision_tree
      [of "\<lparr>primary_start = Some \<lparr>nal_ref_idc = 1, nal_unit_type = NAL_OTHER 6\<rparr>\<rparr>" example_lib]
  by (simp add: example_lib_def)

text \<open>
  C2: what \<open>h262_item_dot\<close> prints for an MPEG-2 item. A picture (start code 0x00)
  prints \<open>i\<close>, \<open>p\<close>, \<open>b\<close> or \<open>d\<close> for the coding types 1, 2, 3 and 4 and \<open>x\<close> for any
  other coding type, after the minute line where one is due. The codes 0xB0, 0xB1
  and 0xB6 print \<open>R\<close>, 0xB2 \<open>U\<close>, 0xB3 \<open>[\<close>, 0xB4 \<open>X\<close>, 0xB5 \<open>E\<close>, 0xB7 \<open>]\<close>, 0xB8
  \<open>>\<close>. A slice code from 0x01 to 0xAF prints nothing. Every remaining code
  prints \<open>?\<close>.
\<close>

theorem h262_item_dot_glyphs:
  "let sc = start_code (unit item); pct = picture_coding_type item;
       dot = fst (h262_item_dot n item);
       minutes = (if n mod (25 * 60) = 0 then minute_line n else '''')
   in (sc = 0x00 \<and> pct = 1 \<longrightarrow> dot = minutes @ ''i'') \<and>
      (sc = 0x00 \<and> pct = 2 \<longrightarrow> dot = minutes @ ''p'') \<and>
      (sc = 0x00 \<and> pct = 3 \<longrightarrow> dot = minutes @ ''b'') \<and>
      (sc = 0x00 \<and> pct = 4 \<longrightarrow> dot = minutes @ ''d'') \<and>
      (sc = 0x00 \<and> pct \<notin> {1, 2, 3, 4} \<longrightarrow> dot = minutes @ ''x'') \<and>
      (sc \<in> {0xB0, 0xB1, 0xB6} \<longrightarrow> dot = ''R'') \<and>
      (sc = 0xB2 \<longrightarrow> dot = ''U'') \<and>
      (sc = 0xB3 \<longrightarrow> dot = ''['') \<and>
      (sc = 0xB4 \<longrightarrow> dot = ''X'') \<and>
      (sc = 0xB5 \<longrightarrow> dot = ''E'') \<and>
      (sc = 0xB7 \<longrightarrow> dot = '']'') \<and>
      (sc = 0xB8 \<longrightarrow> dot = ''>'') \<and>
      (0x01 \<le> sc \<and> sc \<le> 0xAF \<longrightarrow> dot = '''' \<and> h262_item_str item = None) \<and>
      (sc \<noteq> 0x00 \<and> \<not> (0x01 \<le> sc \<and> sc \<le> 0xAF) \<and>
       sc \<notin> {0xB0, 0xB1, 0xB2, 0xB3, 0xB4, 0xB5, 0xB6, 0xB7, 0xB8} \<longrightarrow> dot = ''?'')"
  by (auto simp add: h262_item_dot_def h262_minutes_def h262_item_str_def Let_def)

theorem h262_item_dot_glyphs_witness:
  "fst (h262_item_dot 7 (h262_example 0x00 2)) = ''p'' \<and>
   fst (h262_item_dot 0 (h262_example 0x00 9)) = ''\<newline>0 minutes\<newline>x'' \<and>
   fst (h262_item_dot 7 (h262_example 0xB6 0)) = ''R'' \<and>
   fst (h262_item_dot 7 (h262_example 0x23 0)) = '''' \<and>
   fst (h262_item_dot 7 (h262_example 0xC0 0)) = ''?''"
  using h262_item_dot_glyphs [of "h262_example 0x00 2" 7]
    h262_item_dot_glyphs [of "h262_example 0x00 9" 0]
    h262_item_dot_glyphs [of "h262_example 0xB6 0" 7]
    h262_item_dot_glyphs [of "h262_example 0x23 0" 7]
    h262_item_dot_glyphs [of "h262_example 0xC0 0" 7]
  by (simp add: h262_example_def Let_def minute_line_0)

lemma hex_two: "16 \<le> n \<Longrightarrow> n < 256 \<Longrightarrow> hex n = [digit (n div 16), digit (n mod 16)]"
  by (subst hex.simps) (simp add: hex.simps)

lemma unat_byte_range: "0xB0 \<le> (sc :: byte) \<Longrightarrow> 16 \<le> unat sc \<and> unat sc < 256"
  using unsigned_less [of sc, where ?'a = nat] by (simp add: word_le_nat_alt)

lemma hex_start_code:
  "0xB0 \<le> (sc :: byte) \<Longrightarrow> hex (unat sc) = [digit (unat sc div 16), digit (unat sc mod 16)]"
  using unat_byte_range [of sc] by (simp add: hex_two)

text \<open>
  C3: what the loop body prints for an AVS frame. A frame prints \<open>i\<close>, \<open>p\<close> or \<open>b\<close>
  for the coding types I, P and B and \<open>!\<close> for any other coding type (followed by
  the minute line where one is due). What is not a frame prints \<open>_\<close> for a start
  code below 0xB0, \<open>[\<close> for 0xB0 (and the frame rate that the frame-rate code
  stands for is stored for the timing), \<open>]\<close> for 0xB1, \<open>U\<close> for 0xB2, \<open>E\<close> for 0xB5,
  \<open>V\<close> for 0xB7, and for any other start code the code in hexadecimal between
  \<open><\<close> and \<open>>\<close>, not \<open>?\<close>.
\<close>

theorem avs_frame_dot_glyphs:
  "let sc = frame_start_code f; pct = frame_picture_coding_type f;
       dot = fst (avs_frame_dot lib vars f);
       per_minute = frames_per_minute (frame_rate vars);
       minutes = (if per_minute \<noteq> 0 \<and> int (frames vars + 1) mod per_minute = 0
                  then minute_line (frames vars + 1) else '''')
   in (is_frame f \<and> pct = AVS_I_PICTURE_CODING \<longrightarrow> dot = ''i'' @ minutes) \<and>
      (is_frame f \<and> pct = AVS_P_PICTURE_CODING \<longrightarrow> dot = ''p'' @ minutes) \<and>
      (is_frame f \<and> pct = AVS_B_PICTURE_CODING \<longrightarrow> dot = ''b'' @ minutes) \<and>
      (is_frame f \<and>
       pct \<notin> {AVS_I_PICTURE_CODING, AVS_P_PICTURE_CODING, AVS_B_PICTURE_CODING} \<longrightarrow>
         dot = ''!'' @ minutes) \<and>
      (\<not> is_frame f \<and> sc < 0xB0 \<longrightarrow> dot = ''_'') \<and>
      (\<not> is_frame f \<and> sc = 0xB0 \<longrightarrow>
         dot = ''['' \<and>
         snd (avs_frame_dot lib vars f) =
           Some (vars\<lparr>frame_rate := avs_frame_rate lib (frame_rate_code f)\<rparr>)) \<and>
      (\<not> is_frame f \<and> sc = 0xB1 \<longrightarrow> dot = '']'') \<and>
      (\<not> is_frame f \<and> sc = 0xB2 \<longrightarrow> dot = ''U'') \<and>
      (\<not> is_frame f \<and> sc = 0xB5 \<longrightarrow> dot = ''E'') \<and>
      (\<not> is_frame f \<and> sc = 0xB7 \<longrightarrow> dot = ''V'') \<and>
      (\<not> is_frame f \<and> 0xB0 \<le> sc \<and> sc \<notin> {0xB0, 0xB1, 0xB2, 0xB5, 0xB7} \<longrightarrow>
         dot = ''<'' @ [digit (unat sc div 16), digit (unat sc mod 16)] @ ''>'' \<and> dot \<noteq> ''?'')"
  by (auto simp add: avs_frame_dot_def Let_def hex_start_code AVS_I_PICTURE_CODING_def
      AVS_P_PICTURE_CODING_def AVS_B_PICTURE_CODING_def)

theorem avs_frame_dot_glyphs_witness:
  "fst (avs_frame_dot example_lib \<lparr>count = 0, frames = 0, frame_rate = 25\<rparr>
          (avs_example True 0xB3 0)) = ''i'' \<and>
   fst (avs_frame_dot example_lib \<lparr>count = 0, frames = 0, frame_rate = 25\<rparr>
          (avs_example True 0xB6 7)) = ''!'' \<and>
   fst (avs_frame_dot example_lib \<lparr>count = 0, frames = 0, frame_rate = 25\<rparr>
          (avs_example False 0x00 0)) = ''_'' \<and>
   avs_frame_dot example_lib \<lparr>count = 0, frames = 0, frame_rate = 25\<rparr>
          (avs_example False 0xB0 0) = (''['', Some \<lparr>count = 0, frames = 0, frame_rate = 50\<rparr>) \<and>
   fst (avs_frame_dot example_lib \<lparr>count = 0, frames = 0, frame_rate = 25\<rparr>
          (avs_example False 0xB8 0)) = ''<b8>''"
  using avs_frame_dot_glyphs [of "avs_example True 0xB3 0" example_lib
      "\<lparr>count = 0, frames = 0, frame_rate = 25\<rparr>"]
    avs_frame_dot_glyphs [of "avs_example True 0xB6 7" example_lib
      "\<lparr>count = 0, frames = 0, frame_rate = 25\<rparr>"]
    avs_frame_dot_glyphs [of "avs_example False 0x00 0" example_lib
      "\<lparr>count = 0, frames = 0, frame_rate = 25\<rparr>"]
    avs_frame_dot_glyphs [of "avs_example False 0xB0 0" example_lib
      "\<lparr>count = 0, frames = 0, frame_rate = 25\<rparr>"]
    avs_frame_dot_glyphs [of "avs_example False 0xB8 0" example_lib
      "\<lparr>count = 0, frames = 0, frame_rate = 25\<rparr>"]
  by (simp add: avs_example_def example_lib_def Let_def frames_per_minute_def digit_def
      AVS_I_PICTURE_CODING_def AVS_P_PICTURE_CODING_def AVS_B_PICTURE_CODING_def
      prod_eq_iff)

text \<open>
  C7: in ES unit mode on MPEG-2 data every unit prints one of the characters of
  the table. A slice code from 0x01 to 0xAF prints \<open>_\<close>, where \<open>h262_item_dot\<close>
  prints nothing. A picture whose coding type, bits 3 to 5 of the byte at offset 5
  of the data, is none of 1, 2, 3 and 4 prints \<open>!\<close>, where \<open>h262_item_dot\<close> prints
  \<open>x\<close> for the same coding type.
\<close>

theorem ES_unit_dot_h262_visible:
  "let dot = ES_unit_dot lib VIDEO_H262 u; pct = drop_bit 3 (data u 5 AND 0x38) in
   dot \<in> {''i'', ''p'', ''b'', ''d'', ''!'', ''R'', ''U'', ''['', ''X'', ''E'', '']'', ''>'',
          ''_'', ''?''} \<and>
   (0x01 \<le> start_code u \<and> start_code u \<le> 0xAF \<longrightarrow>
      dot = ''_'' \<and> fst (h262_item_dot n \<lparr>unit = u, picture_coding_type = p\<rparr>) = '''') \<and>
   (start_code u = 0x00 \<and> pct \<notin> {1, 2, 3, 4} \<longrightarrow>
      dot = ''!'' \<and>
      fst (h262_item_dot n \<lparr>unit = u, picture_coding_type = pct\<rparr>) =
        (if n mod (25 * 60) = 0 then minute_line n else '''') @ ''x'')"
  by (auto simp add: ES_unit_dot_def Let_def h262_item_dot_def h262_minutes_def h262_item_str_def)

theorem ES_unit_dot_h262_visible_witness:
  "ES_unit_dot example_lib VIDEO_H262 (ES_unit_example 0x01 0) = ''_'' \<and>
   fst (h262_item_dot 7 \<lparr>unit = ES_unit_example 0x01 0, picture_coding_type = 0\<rparr>) = '''' \<and>
   ES_unit_dot example_lib VIDEO_H262 (ES_unit_example 0x00 0x28) = ''!'' \<and>
   fst (h262_item_dot 7 \<lparr>unit = ES_unit_example 0x00 0x28, picture_coding_type = 5\<rparr>) = ''x''"
  using ES_unit_dot_h262_visible [of example_lib "ES_unit_example 0x01 0" 7 0]
    ES_unit_dot_h262_visible [of example_lib "ES_unit_example 0x00 0x28" 7 0]
  by (simp add: ES_unit_example_def Let_def)

subsection \<open>Characters per unit\<close>

text \<open>
  C8, as stated, fails: an AVS unit that is not a frame and has the start code
  0xB4 prints the four characters \<open><b4>\<close>.
\<close>

theorem hex_tag_counterexample:
  "fst (avs_frame_dot example_lib \<lparr>count = 0, frames = 0, frame_rate = 25\<rparr>
          (avs_example False 0xB4 0)) = ''<b4>'' \<and>
   \<not> length (fst (avs_frame_dot example_lib \<lparr>count = 0, frames = 0, frame_rate = 25\<rparr>
          (avs_example False 0xB4 0))) \<le> 1"
  by (simp add: avs_frame_dot_def avs_example_def hex_two digit_def)

text \<open>
  C8, amended: an MPEG-2 item prints, after the minute line if there is one, no
  character for a slice code from 0x01 to 0xAF and one character otherwise. An ES
  unit of MPEG-2 or AVS data prints one character. An AVS frame prints one
  character, followed by the minute line where one is due; an AVS unit that is not
  a frame prints one character if its start code is below 0xB0 or one of 0xB0,
  0xB1, 0xB2, 0xB5 and 0xB7, and otherwise its start code as two hexadecimal
  digits between \<open><\<close> and \<open>>\<close>. An H.264 access unit prints one character; where
  the end of the stream is flagged after it and \<^verbatim>\<open>-hasheos\<close> is given, the driver
  prints \<open>#\<close> after that character.
\<close>

theorem glyphs_per_unit:
  "(let sc = start_code (unit item) in
      \<exists>g. fst (h262_item_dot n item) = fst (h262_minutes n item) @ g \<and>
          length g = (if 0x01 \<le> sc \<and> sc \<le> 0xAF then 0 else 1)) \<and>
   length (ES_unit_dot lib VIDEO_H262 u) = 1 \<and>
   length (ES_unit_dot lib VIDEO_AVS u) = 1 \<and>
   (let sc = frame_start_code f; dot = fst (avs_frame_dot lib vars f);
        per_minute = frames_per_minute (frame_rate vars);
        minutes = (if per_minute \<noteq> 0 \<and> int (frames vars + 1) mod per_minute = 0
                   then minute_line (frames vars + 1) else '''')
    in (is_frame f \<longrightarrow> (\<exists>c. dot = c # minutes)) \<and>
       (\<not> is_frame f \<and> (sc < 0xB0 \<or> sc \<in> {0xB0, 0xB1, 0xB2, 0xB5, 0xB7}) \<longrightarrow> length dot = 1) \<and>
       (\<not> is_frame f \<and> 0xB0 \<le> sc \<and> sc \<notin> {0xB0, 0xB1, 0xB2, 0xB5, 0xB7} \<longrightarrow>
          dot = ''<'' @ [digit (unat sc div 16), digit (unat sc mod 16)] @ ''>'')) \<and>
   length (access_unit_dot lib au) = 1 \<and>
   (end_of_stream (parse ctx) \<longrightarrow>
      (\<exists>rest. printed (access_unit_loop lib maxi True ctx k (Got (au, parse) # es)) =
         access_unit_dot lib au @ ''#'' @ rest))"
proof -
  have h262: "let sc = start_code (unit item) in
      \<exists>g. fst (h262_item_dot n item) = fst (h262_minutes n item) @ g \<and>
          length g = (if 0x01 \<le> sc \<and> sc \<le> 0xAF then 0 else 1)"
    by (auto simp add: h262_item_dot_def h262_item_str_def Let_def split: prod.splits)
  have es262: "length (ES_unit_dot lib VIDEO_H262 u) = 1"
    by (simp add: ES_unit_dot_def Let_def)
  have esavs: "length (ES_unit_dot lib VIDEO_AVS u) = 1"
    by (simp add: ES_unit_dot_def)
  have avs: "let sc = frame_start_code f; dot = fst (avs_frame_dot lib vars f);
        per_minute = frames_per_minute (frame_rate vars);
        minutes = (if per_minute \<noteq> 0 \<and> int (frames vars + 1) mod per_minute = 0
                   then minute_line (frames vars + 1) else '''')
    in (is_frame f \<longrightarrow> (\<exists>c. dot = c # minutes)) \<and>
       (\<not> is_frame f \<and> (sc < 0xB0 \<or> sc \<in> {0xB0, 0xB1, 0xB2, 0xB5, 0xB7}) \<longrightarrow> length dot = 1) \<and>
       (\<not> is_frame f \<and> 0xB0 \<le> sc \<and> sc \<notin> {0xB0, 0xB1, 0xB2, 0xB5, 0xB7} \<longrightarrow>
          dot = ''<'' @ [digit (unat sc div 16), digit (unat sc mod 16)] @ ''>'')"
    by (auto simp add: avs_frame_dot_def Let_def hex_start_code)
  have au: "length (access_unit_dot lib au) = 1"
    by (simp add: access_unit_dot_def split: option.splits)
  have eos: "end_of_stream (parse ctx) \<longrightarrow>
      (\<exists>rest. printed (access_unit_loop lib maxi True ctx k (Got (au, parse) # es)) =
         access_unit_dot lib au @ ''#'' @ rest)"
    by (simp add: Let_def say_def)
  from h262 es262 esavs avs au eos show ?thesis by blast
qed

theorem glyphs_per_unit_witness:
  "fst (h262_item_dot 7 (h262_example 0x23 0)) = '''' \<and>
   length (ES_unit_dot example_lib VIDEO_AVS (ES_unit_example 0xB6 0)) = 1 \<and>
   length (fst (avs_frame_dot example_lib \<lparr>count = 0, frames = 0, frame_rate = 25\<rparr>
                  (avs_example False 0xB1 0))) = 1 \<and>
   fst (avs_frame_dot example_lib \<lparr>count = 0, frames = 0, frame_rate = 25\<rparr>
          (avs_example False 0xB8 0)) = ''<b8>'' \<and>
   (\<exists>rest. printed (access_unit_loop example_lib 0 True context_example 0
                      [Got (\<lparr>primary_start = None\<rparr>, \<lambda>c. c\<lparr>end_of_stream := True\<rparr>)]) =
             ''_#'' @ rest)"
  using glyphs_per_unit [where item = "h262_example 0x23 0" and n = 7 and lib = example_lib
      and u = "ES_unit_example 0xB6 0" and f = "avs_example False 0xB1 0"
      and vars = "\<lparr>count = 0, frames = 0, frame_rate = 25\<rparr>"
      and au = "\<lparr>primary_start = None\<rparr>" and parse = "\<lambda>c. c\<lparr>end_of_stream := True\<rparr>"
      and ctx = context_example and maxi = 0 and k = 0 and es = "[]"]
    glyphs_per_unit [where item = "h262_example 0x23 0" and n = 7 and lib = example_lib
      and u = "ES_unit_example 0xB6 0" and f = "avs_example False 0xB8 0"
      and vars = "\<lparr>count = 0, frames = 0, frame_rate = 25\<rparr>"
      and au = "\<lparr>primary_start = None\<rparr>" and parse = "\<lambda>c. c\<lparr>end_of_stream := True\<rparr>"
      and ctx = context_example and maxi = 0 and k = 0 and es = "[]"]
  by (simp add: h262_example_def avs_example_def h262_minutes_def digit_def
      access_unit_dot_def Let_def)

subsection \<open>The minute lines\<close>

lemma say_say: "say a (say b r) = say (a @ b) r"
  by (simp add: say_def)



lemma avs_frame_dot_frames:
  "avs_frame_dot lib vars f = (dot, Some vars1) \<Longrightarrow> frames vars \<le> frames vars1"
  by (auto simp add: avs_frame_dot_def Let_def split: if_splits)


lemma avs_dots_frames:
  "avs_dots lib vars fs = Some (shown, vars') \<Longrightarrow> frames vars \<le> frames vars'"
proof (induction fs arbitrary: vars shown)
  case Nil
  then show ?case by simp
next
  case (Cons f fs)
  from Cons.prems obtain dot vars1 dots where
    step: "avs_frame_dot lib vars f = (dot, Some vars1)" and
    rest: "avs_dots lib (vars1\<lparr>count := count vars1 + 1\<rparr>) fs = Some (dots, vars')"
    by (auto split: prod.splits option.splits)
  from Cons.IH [OF rest] avs_frame_dot_frames [OF step] show ?case
    by simp
qed

text \<open>
  As long as the limit is not reached and no timing annotation divides by zero, the
  loop prints what its body prints for the frames that it gets, and goes on with
  the rest.
\<close>

lemma avs_loop_prefix:
  "avs_dots lib vars fs = Some (shown, vars') \<Longrightarrow> maxi \<le> 0 \<or> int (frames vars') < maxi \<Longrightarrow>
   avs_loop lib maxi vars (map Got fs @ es) = map_option (say shown) (avs_loop lib maxi vars' es)"
proof (induction fs arbitrary: vars shown)
  case Nil
  then show ?case by (simp add: say_def option.map_ident cong: option.map_cong)
next
  case (Cons f fs)
  from Cons.prems(1) obtain dot vars1 dots where
    step: "avs_frame_dot lib vars f = (dot, Some vars1)" and
    rest: "avs_dots lib (vars1\<lparr>count := count vars1 + 1\<rparr>) fs = Some (dots, vars')" and
    shown: "shown = dot @ dots"
    by (auto split: prod.splits option.splits)
  from avs_dots_frames [OF rest] Cons.prems(2)
  have go: "\<not> (maxi > 0 \<and> int (frames (vars1\<lparr>count := count vars1 + 1\<rparr>)) \<ge> maxi)"
    by auto
  have "avs_loop lib maxi vars (Got f # map Got fs @ es) =
      map_option (say dot)
        (avs_loop lib maxi (vars1\<lparr>count := count vars1 + 1\<rparr>) (map Got fs @ es))"
    using step go by (auto simp add: Let_def)
  also have "\<dots> = map_option (say dot) (map_option (say dots) (avs_loop lib maxi vars' es))"
    using Cons.IH [OF rest Cons.prems(2)] by simp
  also have "\<dots> = map_option (say shown) (avs_loop lib maxi vars' es)"
    by (simp add: option.map_comp comp_def say_say shown)
  finally show ?case by simp
qed



subsection \<open>The end of the stream in H.264 data\<close>

text \<open>
  C4, as stated, fails: with \<^verbatim>\<open>-hasheos\<close> and a limit of 4 NAL units, an access
  unit after which the end of the stream is flagged and 4 NAL units have been read
  prints \<open>#\<close>, and then the driver stops: it does not ask for the next access unit.
\<close>

theorem hasheos_stops_counterexample:
  "access_unit_loop example_lib 4 True context_example 0 [eos_example 4, more_example 9] =
     \<lparr>printed = ''_#\<newline>Stopping because 4 NAL units have been read\<newline>'' @
                ''\<newline>Found 4 NAL units in 1 access unit\<newline>'',
      complained = '''', status = 0, unread = [more_example 9]\<rparr>"
  by (simp add: eos_example_def more_example_def context_example_def Let_def say_def
      h264_finish_def h264_found_def h264_stopping_def print_d_def dec_digit digit_def plural_def
      access_unit_dot_def)

text \<open>
  C4, amended: where the end of the stream is flagged after an access unit has
  been printed, then with \<^verbatim>\<open>-hasheos\<close> the driver prints \<open>#\<close> and clears the two
  flags \<open>end_of_stream\<close> and \<open>no_more_data\<close> of the context; it goes on with the
  next access unit unless the limit of NAL units is reached, in which case it
  prints the message of the limit and stops. Without \<^verbatim>\<open>-hasheos\<close> it prints
  the closing message and the summary and returns 0, with the rest of the stream
  unread.
\<close>

theorem end_of_stream_policy:
  "let context1 = parse ctx; dot = access_unit_dot lib au;
       reset = context1\<lparr>end_of_stream := False, no_more_data := False\<rparr>
   in end_of_stream context1 \<longrightarrow>
      (\<not> (maxi > 0 \<and> nac_count context1 \<ge> maxi) \<longrightarrow>
         access_unit_loop lib maxi True ctx k (Got (au, parse) # es) =
           say (dot @ ''#'') (access_unit_loop lib maxi True reset (k + 1) es)) \<and>
      (maxi > 0 \<and> nac_count context1 \<ge> maxi \<longrightarrow>
         access_unit_loop lib maxi True ctx k (Got (au, parse) # es) =
           say (dot @ ''#'' @ h264_stopping reset) (h264_finish reset (k + 1) es)) \<and>
      access_unit_loop lib maxi False ctx k (Got (au, parse) # es) =
        say (dot @ eos_stopping) (h264_finish context1 (k + 1) es) \<and>
      status (access_unit_loop lib maxi False ctx k (Got (au, parse) # es)) = 0 \<and>
      unread (access_unit_loop lib maxi False ctx k (Got (au, parse) # es)) = es"
  by (simp add: Let_def say_def h264_finish_def)

theorem end_of_stream_policy_witness:
  "printed (access_unit_loop example_lib 0 True context_example 0
              [eos_example 4, more_example 9]) =
     ''_#_\<newline>Found 9 NAL units in 2 access units\<newline>'' \<and>
   access_unit_loop example_lib 0 False context_example 0 [eos_example 4, more_example 9] =
     \<lparr>printed = ''_\<newline>Stopping because found end-of-stream NAL unit\<newline>'' @
                ''\<newline>Found 4 NAL units in 1 access unit\<newline>'',
      complained = '''', status = 0, unread = [more_example 9]\<rparr>"
  using end_of_stream_policy
      [where parse = "\<lambda>context. context\<lparr>end_of_stream := True, nac_count := 4\<rparr>"
       and ctx = context_example and maxi = 0 and lib = example_lib
       and au = "\<lparr>primary_start = None\<rparr>" and k = 0 and es = "[more_example 9]"]
  by (simp add: eos_example_def more_example_def context_example_def Let_def say_def
      h264_finish_def h264_found_def eos_stopping_def print_d_def dec_digit digit_def plural_def
      access_unit_dot_def)

subsection \<open>The limit\<close>

text \<open>
  What each loop does at the unit with which its counter reaches the limit: the
  loops for ES units, AVS frames and access units print the reason, then the
  summary, and return 0 with the rest of the stream unread. The loop for MPEG-2
  items prints the summary only.
\<close>

lemma ES_loop_limit:
  "maxi > 0 \<Longrightarrow> int (n + 1) \<ge> maxi \<Longrightarrow>
   ES_loop lib what_data maxi n (Got u # es) =
     \<lparr>printed = ES_unit_dot lib what_data u @ ES_stopping (n + 1) @ ES_found (n + 1),
      complained = '''', status = 0, unread = es\<rparr>"
  by simp

lemma avs_loop_limit:
  "maxi > 0 \<Longrightarrow> avs_frame_dot lib vars f = (dot, Some vars1) \<Longrightarrow> int (frames vars1) \<ge> maxi \<Longrightarrow>
   avs_loop lib maxi vars (Got f # es) =
     Some \<lparr>printed = dot @ avs_stopping (vars1\<lparr>count := count vars1 + 1\<rparr>) @
                     avs_found (vars1\<lparr>count := count vars1 + 1\<rparr>),
           complained = '''', status = 0, unread = es\<rparr>"
  by (simp add: Let_def)

lemma access_unit_loop_limit:
  "maxi > 0 \<Longrightarrow> \<not> end_of_stream (parse ctx) \<Longrightarrow> nac_count (parse ctx) \<ge> maxi \<Longrightarrow>
   access_unit_loop lib maxi hash_eos ctx k (Got (au, parse) # es) =
     \<lparr>printed = access_unit_dot lib au @ h264_stopping (parse ctx) @
                h264_found (parse ctx) (k + 1),
      complained = '''', status = 0, unread = es\<rparr>"
  by (simp add: Let_def say_def h264_finish_def)

lemma h262_loop_limit:
  "maxi > 0 \<Longrightarrow> int (n + 1) \<ge> maxi \<Longrightarrow>
   h262_loop maxi n k (Got item # es) =
     \<lparr>printed = fst (h262_item_dot k item) @ h262_found (n + 1),
      complained = '''', status = 0, unread = es\<rparr>"
  by (simp add: split_beta)

text \<open>
  C5, on the code: with a limit of 1, MPEG-2 items stop after the first item with
  the summary alone, where ES units of the same data stop with the line
  \<open>Stopping because 1 ES units have been read\<close> before the summary.
\<close>

theorem h262_stops_without_message:
  "report_h262_file_as_dots [Got (h262_example 0xB3 0), Got (h262_example 0x00 1)] 1 False =
     \<lparr>printed = ''[\<newline>Found 1 MPEG2 item\<newline>'', complained = '''', status = 0,
      unread = [Got (h262_example 0x00 1)]\<rparr> \<and>
   report_file_as_ES_dots example_lib
     [Got (unit (h262_example 0xB3 0)), Got (unit (h262_example 0x00 1))] VIDEO_H262 1 False =
     \<lparr>printed = ''[\<newline>Stopping because 1 ES units have been read\<newline>'' @
                ''\<newline>Found 1 ES units\<newline>'',
      complained = '''', status = 0, unread = [Got (unit (h262_example 0x00 1))]\<rparr>"
  by (simp add: report_h262_file_as_dots_def report_file_as_ES_dots_def say_def
      h262_item_dot_def h262_minutes_def h262_item_str_def h262_example_def h262_found_def
      ES_unit_dot_def ES_stopping_def ES_found_def dec_digit digit_def plural_def)

subsection \<open>ES units of H.264 data\<close>

text \<open>
  Without \<^verbatim>\<open>-verbose\<close> the loop for ES units runs on H.264 data: it prints
  nothing for a unit and returns 0 at the end of the data.
\<close>

lemma ES_loop_h264_quiet:
  "ES_loop lib VIDEO_H264 0 n (map Got us) =
     \<lparr>printed = ES_found (n + length us), complained = '''', status = 0, unread = []\<rparr>"
  by (induction us arbitrary: n) (simp_all add: ES_unit_dot_def say_def)

text \<open>
  C6, on the code: \<^verbatim>\<open>-es\<close> with H.264 data and without \<^verbatim>\<open>-verbose\<close> reads
  the two units of the example, prints the summary and exits with 0. With
  \<^verbatim>\<open>-verbose\<close> the same input is refused with exit code 1.
\<close>

theorem es_h264_accepted_quietly:
  "esdots example_lib ES_example True VIDEO_H264 0 False False =
     Some (''\<newline>Found 2 ES unitss\<newline>'', '''', 0) \<and>
   esdots example_lib ES_example True VIDEO_H264 0 True False =
     Some (ES_legend_head @ ES_not_supported,
           ''### esdots: Error producing '' @ [CHR 0x27] @ ''dots'' @ [CHR 0x27] @ ''\<newline>'', 1)"
  by (simp add: esdots_def report_file_as_ES_dots_def ES_example_def outcome_def say_def
      ES_unit_dot_def ES_found_def dec_digit digit_def plural_def)

subsection \<open>The minute lines of a run on MPEG-2 data\<close>













end
